theory Spec2Isabelle
  imports Main "HOL-Library.Word"
begin

unbundle bit_operations_syntax

section \<open>JavaScript strings and Node buffers\<close>

text \<open>
  A JavaScript string is a sequence of UTF-16 code units, a Node \<open>Buffer\<close> a sequence of
  bytes. A source literal such as \<open>"encrypted:"\<close> is written \<open>str ''encrypted:''\<close>.
\<close>

type_synonym jsstring = "16 word list"
type_synonym bytes = "8 word list"

definition str :: "string \<Rightarrow> jsstring" where
  "str s = map of_char s"

text \<open>\<open>s.startsWith(p)\<close>, \<open>s.substring(k)\<close> and \<open>s.split(sep)\<close> for a one-character separator.\<close>

definition startsWith :: "jsstring \<Rightarrow> jsstring \<Rightarrow> bool" where
  "startsWith s p = (take (length p) s = p)"

definition substring :: "jsstring \<Rightarrow> nat \<Rightarrow> jsstring" where
  "substring s k = drop k s"

fun split :: "jsstring \<Rightarrow> 16 word \<Rightarrow> jsstring list" where
  "split [] sep = [[]]"
| "split (c # cs) sep =
     (if c = sep then [] # split cs sep
      else (case split cs sep of w # ws \<Rightarrow> (c # w) # ws | [] \<Rightarrow> [[c]]))"

subsection \<open>The regular expressions of the source\<close>

text \<open>
  Every regular expression in the source is built from one character class: a class
  is a list of inclusive ranges of code units.
  \<^item> \<open>/^[cls]+$/.test(s)\<close> is \<open>test_all cls s\<close> (without the \<open>m\<close> flag, \<open>$\<close> is the end of input);
  \<^item> \<open>/[cls]/.test(s)\<close> is \<open>test_some cls s\<close>;
  \<^item> \<open>s.replace(/^[cls]+/, "")\<close> is \<open>strip_leading cls s\<close> (the greedy \<open>+\<close> takes the
    whole run of class characters at the start).
\<close>

type_synonym char_class = "(16 word \<times> 16 word) list"

definition in_class :: "char_class \<Rightarrow> 16 word \<Rightarrow> bool" where
  "in_class cls c = list_ex (\<lambda>(lo, hi). lo \<le> c \<and> c \<le> hi) cls"

definition test_all :: "char_class \<Rightarrow> jsstring \<Rightarrow> bool" where
  "test_all cls s = (s \<noteq> [] \<and> list_all (in_class cls) s)"

definition test_some :: "char_class \<Rightarrow> jsstring \<Rightarrow> bool" where
  "test_some cls s = list_ex (in_class cls) s"

definition strip_leading :: "char_class \<Rightarrow> jsstring \<Rightarrow> jsstring" where
  "strip_leading cls s = dropWhile (in_class cls) s"

text \<open>\<open>[0-9a-fA-F]\<close>, \<open>0\<close>, \<open>[a-z\s]\<close> (with ECMAScript's \<open>\s\<close>) and \<open>[\x20-\x7E]\<close>.\<close>

definition cls_hex :: char_class where
  "cls_hex = [(0x30, 0x39), (0x61, 0x66), (0x41, 0x46)]"

definition cls_zero :: char_class where
  "cls_zero = [(0x30, 0x30)]"

definition cls_white :: char_class where
  "cls_white = [(0x09, 0x0D), (0x20, 0x20), (0xA0, 0xA0), (0x1680, 0x1680), (0x2000, 0x200A),
     (0x2028, 0x2029), (0x202F, 0x202F), (0x205F, 0x205F), (0x3000, 0x3000), (0xFEFF, 0xFEFF)]"

definition cls_lower_white :: char_class where
  "cls_lower_white = (0x61, 0x7A) # cls_white"

definition cls_printable :: char_class where
  "cls_printable = [(0x20, 0x7E)]"

subsection \<open>\<open>Buffer.from(s, "utf8")\<close>\<close>

text \<open>
  A surrogate pair is one code point of four bytes; a lone surrogate is encoded as
  U+FFFD (\<open>EF BF BD\<close>).
\<close>

definition is_high :: "16 word \<Rightarrow> bool" where
  "is_high c = (0xD800 \<le> c \<and> c \<le> 0xDBFF)"

definition is_low :: "16 word \<Rightarrow> bool" where
  "is_low c = (0xDC00 \<le> c \<and> c \<le> 0xDFFF)"

definition code_point :: "16 word \<Rightarrow> 16 word \<Rightarrow> 32 word" where
  "code_point hi lo = 0x10000 + push_bit 10 (ucast (hi AND 0x3FF)) + ucast (lo AND 0x3FF)"

definition utf8_2 :: "16 word \<Rightarrow> bytes" where
  "utf8_2 c = [0xC0 OR ucast (drop_bit 6 c), 0x80 OR ucast (c AND 0x3F)]"

definition utf8_3 :: "16 word \<Rightarrow> bytes" where
  "utf8_3 c = [0xE0 OR ucast (drop_bit 12 c), 0x80 OR ucast (drop_bit 6 c AND 0x3F),
     0x80 OR ucast (c AND 0x3F)]"

definition utf8_4 :: "32 word \<Rightarrow> bytes" where
  "utf8_4 p = [0xF0 OR ucast (drop_bit 18 p), 0x80 OR ucast (drop_bit 12 p AND 0x3F),
     0x80 OR ucast (drop_bit 6 p AND 0x3F), 0x80 OR ucast (p AND 0x3F)]"

fun utf8_encode :: "jsstring \<Rightarrow> bytes" where
  "utf8_encode [] = []"
| "utf8_encode (c # cs) =
     (if c < 0x80 then ucast c # utf8_encode cs
      else if c < 0x800 then utf8_2 c @ utf8_encode cs
      else if is_high c then
        (case cs of
           d # ds \<Rightarrow> if is_low d then utf8_4 (code_point c d) @ utf8_encode ds
                     else utf8_3 0xFFFD @ utf8_encode cs
         | [] \<Rightarrow> utf8_3 0xFFFD)
      else if is_low c then utf8_3 0xFFFD @ utf8_encode cs
      else utf8_3 c @ utf8_encode cs)"

subsection \<open>\<open>buf.toString("hex")\<close> and \<open>Buffer.from(s, "hex")\<close>\<close>

definition hex_char :: "8 word \<Rightarrow> 16 word" where
  "hex_char n = (if n < 10 then 0x30 + ucast n else 0x57 + ucast n)"

definition hex_encode :: "bytes \<Rightarrow> jsstring" where
  "hex_encode bs = concat (map (\<lambda>b. [hex_char (drop_bit 4 b), hex_char (b AND 0x0F)]) bs)"

definition unhex :: "16 word \<Rightarrow> 8 word option" where
  "unhex c =
     (if 0x30 \<le> c \<and> c \<le> 0x39 then Some (ucast (c - 0x30))
      else if 0x61 \<le> c \<and> c \<le> 0x66 then Some (ucast (c - 0x57))
      else if 0x41 \<le> c \<and> c \<le> 0x46 then Some (ucast (c - 0x37))
      else None)"

text \<open>
  Decoding reads two characters at a time and stops at the first pair that is not two hex
  digits; a single trailing character is dropped. It never throws.
\<close>

fun hex_decode :: "jsstring \<Rightarrow> bytes" where
  "hex_decode (a # b # cs) =
     (case unhex a of
        None \<Rightarrow> []
      | Some x \<Rightarrow> (case unhex b of
                     None \<Rightarrow> []
                   | Some y \<Rightarrow> (push_bit 4 x OR y) # hex_decode cs))"
| "hex_decode _ = []"

subsection \<open>\<open>buf.toString("utf8")\<close>\<close>

text \<open>
  Decoding never throws: every maximal ill-formed prefix of a sequence becomes one U+FFFD
  and the byte that ended it is read again; a code point above U+FFFF becomes a
  surrogate pair; a byte order mark is kept.
\<close>

definition is_cont :: "8 word \<Rightarrow> bool" where
  "is_cont b = (0x80 \<le> b \<and> b \<le> 0xBF)"

definition second_of_3 :: "8 word \<Rightarrow> 8 word \<Rightarrow> bool" where
  "second_of_3 b c =
     (if b = 0xE0 then 0xA0 \<le> c \<and> c \<le> 0xBF
      else if b = 0xED then 0x80 \<le> c \<and> c \<le> 0x9F
      else is_cont c)"

definition second_of_4 :: "8 word \<Rightarrow> 8 word \<Rightarrow> bool" where
  "second_of_4 b c =
     (if b = 0xF0 then 0x90 \<le> c \<and> c \<le> 0xBF
      else if b = 0xF4 then 0x80 \<le> c \<and> c \<le> 0x8F
      else is_cont c)"

definition unit_2 :: "8 word \<Rightarrow> 8 word \<Rightarrow> 16 word" where
  "unit_2 b c = push_bit 6 (ucast (b AND 0x1F)) OR ucast (c AND 0x3F)"

definition unit_3 :: "8 word \<Rightarrow> 8 word \<Rightarrow> 8 word \<Rightarrow> 16 word" where
  "unit_3 b c d =
     push_bit 12 (ucast (b AND 0x0F)) OR push_bit 6 (ucast (c AND 0x3F)) OR ucast (d AND 0x3F)"

definition units_4 :: "8 word \<Rightarrow> 8 word \<Rightarrow> 8 word \<Rightarrow> 8 word \<Rightarrow> jsstring" where
  "units_4 b c d e =
     (let p = (push_bit 18 (ucast (b AND 0x07)) OR push_bit 12 (ucast (c AND 0x3F)) OR
               push_bit 6 (ucast (d AND 0x3F)) OR ucast (e AND 0x3F) :: 32 word) - 0x10000
      in [0xD800 OR ucast (drop_bit 10 p), 0xDC00 OR ucast (p AND 0x3FF)])"

fun utf8_decode :: "bytes \<Rightarrow> jsstring" where
  "utf8_decode [] = []"
| "utf8_decode (b # bs) =
     (if b < 0x80 then ucast b # utf8_decode bs
      else if 0xC2 \<le> b \<and> b \<le> 0xDF then
        (case bs of
           [] \<Rightarrow> [0xFFFD]
         | c # bs1 \<Rightarrow>
             if is_cont c then unit_2 b c # utf8_decode bs1 else 0xFFFD # utf8_decode bs)
      else if 0xE0 \<le> b \<and> b \<le> 0xEF then
        (case bs of
           [] \<Rightarrow> [0xFFFD]
         | c # bs1 \<Rightarrow>
             if second_of_3 b c then
               (case bs1 of
                  [] \<Rightarrow> [0xFFFD]
                | d # bs2 \<Rightarrow>
                    if is_cont d then unit_3 b c d # utf8_decode bs2
                    else 0xFFFD # utf8_decode bs1)
             else 0xFFFD # utf8_decode bs)
      else if 0xF0 \<le> b \<and> b \<le> 0xF4 then
        (case bs of
           [] \<Rightarrow> [0xFFFD]
         | c # bs1 \<Rightarrow>
             if second_of_4 b c then
               (case bs1 of
                  [] \<Rightarrow> [0xFFFD]
                | d # bs2 \<Rightarrow>
                    if is_cont d then
                      (case bs2 of
                         [] \<Rightarrow> [0xFFFD]
                       | e # bs3 \<Rightarrow>
                           if is_cont e then units_4 b c d e @ utf8_decode bs3
                           else 0xFFFD # utf8_decode bs2)
                    else 0xFFFD # utf8_decode bs1)
             else 0xFFFD # utf8_decode bs)
      else 0xFFFD # utf8_decode bs)"

section \<open>Thrown values and the two external libraries\<close>

text \<open>
  A \<open>throw\<close> is the left side of a sum. The source only ever inspects a caught value
  with \<open>error instanceof Error ? error.message : ...\<close>, so a thrown value is an
  \<open>Error\<close> with its message or something else.
\<close>

datatype thrown = Error jsstring | NonError

text \<open>
  The sharing library (\<open>secrets.js-grempe\<close>) and the cipher library (\<open>crypto-js\<close>) are not
  part of the repository; the wrappers are verified for any implementation of the four
  calls the source makes. The two randomised calls take their entropy as an argument:
  \<^item> \<open>share r hex n t\<close> is \<open>secrets.share(hex, n, t)\<close>;
  \<^item> \<open>combine shares\<close> is \<open>secrets.combine(shares)\<close>;
  \<^item> \<open>aes_encrypt r text password\<close> is \<open>CryptoJS.AES.encrypt(text, password).toString()\<close>;
  \<^item> \<open>aes_decrypt text password\<close> is
    \<open>CryptoJS.AES.decrypt(text, password).toString(CryptoJS.enc.Utf8)\<close>.
\<close>

record 'r library =
  share :: "'r \<Rightarrow> jsstring \<Rightarrow> int \<Rightarrow> int \<Rightarrow> thrown + jsstring list"
  combine :: "jsstring list \<Rightarrow> thrown + jsstring"
  aes_encrypt :: "'r \<Rightarrow> jsstring \<Rightarrow> jsstring \<Rightarrow> thrown + jsstring"
  aes_decrypt :: "jsstring \<Rightarrow> jsstring \<Rightarrow> thrown + jsstring"

text \<open>\<open>xs.map(f)\<close> where \<open>f\<close> may throw: the first throw ends the traversal.\<close>

fun try_map :: "('a \<Rightarrow> thrown + 'b) \<Rightarrow> 'a list \<Rightarrow> thrown + 'b list" where
  "try_map f [] = Inr []"
| "try_map f (x # xs) =
     (case f x of
        Inl e \<Rightarrow> Inl e
      | Inr y \<Rightarrow> (case try_map f xs of Inl e \<Rightarrow> Inl e | Inr ys \<Rightarrow> Inr (y # ys)))"

text \<open>
  An optional parameter \<open>password?: string\<close> tested with \<open>if (password)\<close>: \<open>undefined\<close>
  and the empty string are both falsy.
\<close>

definition given :: "jsstring option \<Rightarrow> bool" where
  "given password = (case password of None \<Rightarrow> False | Some p \<Rightarrow> p \<noteq> [])"

section \<open>EncryptionUtils (src/utils/encryption.ts)\<close>

definition encrypt :: "'r library \<Rightarrow> 'r \<Rightarrow> jsstring \<Rightarrow> jsstring \<Rightarrow> thrown + jsstring" where
  "encrypt L r text password =
     (case aes_encrypt L r text password of
        Inl e \<Rightarrow> Inl e
      | Inr encrypted \<Rightarrow> Inr (str ''encrypted:'' @ encrypted))"

text \<open>\<open>cleanText\<close> is the local constant of \<open>decrypt\<close>: the token without its marker.\<close>

definition cleanText :: "jsstring \<Rightarrow> jsstring" where
  "cleanText encryptedText =
     (if startsWith encryptedText (str ''encrypted:'') then substring encryptedText 10
      else encryptedText)"

definition decrypt :: "'r library \<Rightarrow> jsstring \<Rightarrow> jsstring \<Rightarrow> thrown + jsstring" where
  "decrypt L encryptedText password =
     (case aes_decrypt L (cleanText encryptedText) password of
        Inl e \<Rightarrow> Inl e
      | Inr result \<Rightarrow>
          if result = []
          then Inl (Error (str ''Failed to decrypt - invalid password or corrupted data''))
          else Inr result)"

definition isEncrypted :: "jsstring \<Rightarrow> bool" where
  "isEncrypted text = startsWith text (str ''encrypted:'')"

text \<open>Share number \<open>j\<close> (from 0) is encrypted with the entropy \<open>rnd j\<close>.\<close>

definition encryptShares ::
  "'r library \<Rightarrow> (nat \<Rightarrow> 'r) \<Rightarrow> jsstring list \<Rightarrow> jsstring \<Rightarrow> thrown + jsstring list" where
  "encryptShares L rnd shares password =
     try_map (\<lambda>(j, share). encrypt L (rnd j) share password) (enumerate 0 shares)"

definition decryptShares :: "'r library \<Rightarrow> jsstring list \<Rightarrow> jsstring \<Rightarrow> thrown + jsstring list" where
  "decryptShares L encryptedShares password =
     try_map (\<lambda>share. decrypt L share password) encryptedShares"

section \<open>ShamirSecretSharing (src/utils/shamir.ts)\<close>

definition stringToHex :: "jsstring \<Rightarrow> jsstring" where
  "stringToHex s =
     (if test_all cls_hex s then (if length s mod 2 \<noteq> 0 then str ''0'' @ s else s)
      else hex_encode (utf8_encode s))"

text \<open>
  \<open>Buffer.from(cleanHex, "hex").toString("utf8")\<close> cannot throw, so the \<open>catch\<close> of the
  source is never entered and the three tests on \<open>decoded\<close> fall through to the last
  \<open>return cleanHex\<close>.
\<close>

definition hexToString :: "jsstring \<Rightarrow> jsstring" where
  "hexToString hex =
     (let replaced = strip_leading cls_zero hex;
          cleanHex = (if replaced = [] then str ''0'' else replaced)
      in if length cleanHex = 64 \<and> test_all cls_hex cleanHex then cleanHex
         else
           let decoded = utf8_decode (hex_decode cleanHex)
           in if startsWith decoded (str ''encrypted:'') then decoded
              else if test_all cls_lower_white decoded \<and> 12 \<le> length (split decoded 0x20)
                then decoded
              else if 0 < length decoded \<and> test_some cls_printable decoded then decoded
              else cleanHex)"

text \<open>
  \<open>createShares\<close>: the three argument checks, then the \<open>try\<close> block (\<open>create_try\<close>), then
  the \<open>catch\<close> that wraps whatever was thrown (\<open>create_catch\<close>). The two counts are
  integers (a JavaScript number that is no integer is outside the model). The entropy
  \<open>rnd 0\<close> encrypts the secret, \<open>rnd 1\<close> draws the polynomials and \<open>rnd (2 + j)\<close> encrypts
  share \<open>j\<close>.
\<close>

definition create_try ::
  "'r library \<Rightarrow> (nat \<Rightarrow> 'r) \<Rightarrow> jsstring \<Rightarrow> int \<Rightarrow> int \<Rightarrow> jsstring option
    \<Rightarrow> thrown + jsstring list" where
  "create_try L rnd secret totalShares threshold password =
     (case (if given password then encrypt L (rnd 0) secret (the password) else Inr secret) of
        Inl e \<Rightarrow> Inl e
      | Inr secretToShare \<Rightarrow>
          (let hexSecret = stringToHex secretToShare
           in case share L (rnd 1) hexSecret totalShares threshold of
                Inl e \<Rightarrow> Inl e
              | Inr shares \<Rightarrow>
                  if given password
                  then encryptShares L (\<lambda>j. rnd (2 + j)) shares (the password)
                  else Inr shares))"

definition create_catch :: "thrown + jsstring list \<Rightarrow> thrown + jsstring list" where
  "create_catch outcome =
     (case outcome of
        Inl e \<Rightarrow>
          Inl (Error (str ''Failed to create shares: '' @
            (case e of Error m \<Rightarrow> m | NonError \<Rightarrow> str ''Unknown error'')))
      | Inr shares \<Rightarrow> Inr shares)"

definition createShares ::
  "'r library \<Rightarrow> (nat \<Rightarrow> 'r) \<Rightarrow> jsstring \<Rightarrow> int \<Rightarrow> int \<Rightarrow> jsstring option
    \<Rightarrow> thrown + jsstring list" where
  "createShares L rnd secret totalShares threshold password =
     (if threshold > totalShares
      then Inl (Error (str ''Threshold cannot be greater than total shares''))
      else if threshold < 2 then Inl (Error (str ''Threshold must be at least 2''))
      else if totalShares < 2 then Inl (Error (str ''Total shares must be at least 2''))
      else create_catch (create_try L rnd secret totalShares threshold password))"

text \<open>
  \<open>restoreSecret\<close>: the length check, then the \<open>try\<close> block in its three steps (the value
  of \<open>sharesToUse\<close>, the combination, the decoding and decryption of the restored hex),
  then the \<open>catch\<close>. \<open>shares[0]\<close> is only read when the list has at least two elements.
\<close>

definition sharesToUse :: "'r library \<Rightarrow> jsstring list \<Rightarrow> jsstring option \<Rightarrow> thrown + jsstring list" where
  "sharesToUse L shares password =
     (if given password \<and> isEncrypted (shares ! 0)
      then decryptShares L shares (the password) else Inr shares)"

definition restoredSecret :: "'r library \<Rightarrow> jsstring \<Rightarrow> jsstring option \<Rightarrow> thrown + jsstring" where
  "restoredSecret L restoredHexSecret password =
     (let restored = hexToString restoredHexSecret
      in if given password \<and> isEncrypted restored
         then decrypt L restored (the password) else Inr restored)"

definition restore_try :: "'r library \<Rightarrow> jsstring list \<Rightarrow> jsstring option \<Rightarrow> thrown + jsstring" where
  "restore_try L shares password =
     (case sharesToUse L shares password of
        Inl e \<Rightarrow> Inl e
      | Inr used \<Rightarrow>
          (case combine L used of
             Inl e \<Rightarrow> Inl e
           | Inr restoredHexSecret \<Rightarrow> restoredSecret L restoredHexSecret password))"

definition restore_catch :: "thrown + jsstring \<Rightarrow> thrown + jsstring" where
  "restore_catch outcome =
     (case outcome of
        Inl e \<Rightarrow>
          Inl (Error (str ''Failed to restore secret: '' @
            (case e of Error m \<Rightarrow> m | NonError \<Rightarrow> str ''Invalid shares or password'')))
      | Inr secret \<Rightarrow> Inr secret)"

definition restoreSecret :: "'r library \<Rightarrow> jsstring list \<Rightarrow> jsstring option \<Rightarrow> thrown + jsstring" where
  "restoreSecret L shares password =
     (if length shares < 2 then Inl (Error (str ''At least 2 shares are required''))
      else restore_catch (restore_try L shares password))"

section \<open>A reference implementation of the two libraries\<close>

text \<open>
  The theorems below hold for every implementation of the library interface. To run
  the wrappers on concrete inputs the interface is implemented once, by the threshold
  engine the specification describes and by a stand-in for the cipher.
\<close>

subsection \<open>The threshold engine\<close>

text \<open>
  Modelled from the spec: the engine behind \<open>secrets.share\<close> and \<open>secrets.combine\<close>, which
  is an external package and not under src/. Sections 4.1 to 4.4 of the specification
  give the field GF(2^8) with addition as XOR, multiplication, division and inverse, one
  random polynomial of degree \<open>t - 1\<close> per secret byte evaluated at the share ids \<open>1..n\<close>,
  Lagrange interpolation at 0, the four argument checks of splitting, the four
  rejections of combining, and a token made of a field-width tag, the id and the hex
  payload. The specification looks products up in log and antilog tables; the model
  computes the same products by shift and add and the inverse as a power, which needs
  no table. The polynomial \<open>x^8 + x^4 + x^3 + x^2 + 1\<close>, the tag \<open>8\<close>, the two-digit id, the
  order of the rejections and the messages are choices the specification leaves open.
\<close>

type_synonym entropy = "nat \<Rightarrow> 8 word"

text \<open>Multiplication by \<open>x\<close>, and the product of two field elements by shift and add.\<close>

definition gf_double :: "8 word \<Rightarrow> 8 word" where
  "gf_double a = (if bit a 7 then push_bit 1 a XOR 0x1D else push_bit 1 a)"

fun gf_mul_loop :: "nat \<Rightarrow> 8 word \<Rightarrow> 8 word \<Rightarrow> 8 word \<Rightarrow> 8 word" where
  "gf_mul_loop 0 a b acc = acc"
| "gf_mul_loop (Suc k) a b acc =
     gf_mul_loop k (gf_double a) (drop_bit 1 b) (if bit b 0 then acc XOR a else acc)"

definition gf_mul :: "8 word \<Rightarrow> 8 word \<Rightarrow> 8 word" where
  "gf_mul a b = gf_mul_loop 8 a b 0"

fun gf_power :: "8 word \<Rightarrow> nat \<Rightarrow> 8 word" where
  "gf_power a k =
     (if k = 0 then 1
      else if even k then gf_power (gf_mul a a) (k div 2)
      else gf_mul a (gf_power (gf_mul a a) (k div 2)))"

text \<open>
  The inverse of a non-zero element is its power \<open>2^8 - 2\<close>. Division by zero is the
  specification's \<open>FieldError\<close>, here \<open>None\<close>.
\<close>

definition gf_div :: "8 word \<Rightarrow> 8 word \<Rightarrow> 8 word option" where
  "gf_div a b = (if b = 0 then None else Some (gf_mul a (gf_power b 254)))"

text \<open>
  A polynomial is the list of its coefficients, the constant term first. The polynomial
  of secret byte number \<open>j\<close> has that byte as constant term and its \<open>t - 1\<close> other
  coefficients from the entropy.
\<close>

fun poly_eval :: "8 word list \<Rightarrow> 8 word \<Rightarrow> 8 word" where
  "poly_eval [] x = 0"
| "poly_eval (c # cs) x = c XOR gf_mul (poly_eval cs x) x"

definition byte_poly :: "entropy \<Rightarrow> nat \<Rightarrow> nat \<Rightarrow> 8 word \<Rightarrow> 8 word list" where
  "byte_poly r t j s = s # map r [j * (t - 1)..<j * (t - 1) + (t - 1)]"

fun share_payload :: "entropy \<Rightarrow> nat \<Rightarrow> nat \<Rightarrow> bytes \<Rightarrow> 8 word \<Rightarrow> bytes" where
  "share_payload r t j [] x = []"
| "share_payload r t j (s # ss) x =
     poly_eval (byte_poly r t j s) x # share_payload r t (Suc j) ss x"

text \<open>A token: the tag \<open>8\<close>, the id as two hex digits, the payload in hex.\<close>

definition encode_share :: "8 word \<Rightarrow> bytes \<Rightarrow> jsstring" where
  "encode_share x payload = str ''8'' @ hex_encode (x # payload)"

definition decode_share :: "jsstring \<Rightarrow> (8 word \<times> bytes) option" where
  "decode_share token =
     (if 3 \<le> length token \<and> take 1 token = str ''8'' \<and> odd (length token)
         \<and> list_all (\<lambda>c. unhex c \<noteq> None) (drop 1 token)
      then (case hex_decode (drop 1 token) of [] \<Rightarrow> None | x # payload \<Rightarrow> Some (x, payload))
      else None)"

fun make_shares :: "entropy \<Rightarrow> nat \<Rightarrow> bytes \<Rightarrow> nat list \<Rightarrow> jsstring list" where
  "make_shares r t secret [] = []"
| "make_shares r t secret (i # ids) =
     encode_share (of_nat i) (share_payload r t 0 secret (of_nat i)) # make_shares r t secret ids"

definition engine_share :: "entropy \<Rightarrow> jsstring \<Rightarrow> int \<Rightarrow> int \<Rightarrow> thrown + jsstring list" where
  "engine_share r hex n t =
     (if t < 2 then Inl (Error (str ''ValidationError: threshold below 2''))
      else if n < 2 then Inl (Error (str ''ValidationError: fewer than 2 shares''))
      else if t > n then Inl (Error (str ''ValidationError: threshold above share count''))
      else if n > 2 ^ 8 - 1 then Inl (Error (str ''ValidationError: field capacity exceeded''))
      else Inr (make_shares r (nat t) (hex_decode hex) [1..<Suc (nat n)]))"

text \<open>
  The Lagrange basis value at 0 for the point \<open>xi\<close> among the distinct points \<open>xs\<close>: the
  product of \<open>xm / (xi XOR xm)\<close> over the other points. Byte \<open>j\<close> of the secret is the sum
  of the products of byte \<open>j\<close> of each payload with the basis value of its share.
\<close>

fun basis_at_zero :: "8 word list \<Rightarrow> 8 word \<Rightarrow> 8 word option" where
  "basis_at_zero [] xi = Some 1"
| "basis_at_zero (xm # xs) xi =
     (if xm = xi then basis_at_zero xs xi
      else (case basis_at_zero xs xi of
              None \<Rightarrow> None
            | Some p \<Rightarrow> (case gf_div xm (xi XOR xm) of
                           None \<Rightarrow> None
                         | Some q \<Rightarrow> Some (gf_mul p q))))"

fun interpolate :: "8 word list \<Rightarrow> 8 word list \<Rightarrow> 8 word" where
  "interpolate (b # bs) (y # ys) = gf_mul y b XOR interpolate bs ys"
| "interpolate _ _ = 0"

fun combine_bytes :: "8 word list \<Rightarrow> bytes list \<Rightarrow> nat \<Rightarrow> bytes" where
  "combine_bytes basis payloads 0 = []"
| "combine_bytes basis payloads (Suc k) =
     interpolate basis (map hd payloads) # combine_bytes basis (map tl payloads) k"

definition engine_combine :: "jsstring list \<Rightarrow> thrown + jsstring" where
  "engine_combine tokens =
     (if length tokens < 2 then Inl (Error (str ''CombineError: insufficient shares''))
      else
        (case those (map decode_share tokens) of
           None \<Rightarrow> Inl (Error (str ''CombineError: malformed share''))
         | Some shares \<Rightarrow>
             if \<not> distinct (map fst shares)
             then Inl (Error (str ''CombineError: duplicate share id''))
             else if list_ex (\<lambda>p. length (snd p) \<noteq> length (snd (hd shares))) shares
             then Inl (Error (str ''CombineError: incompatible shares''))
             else
               (case those (map (basis_at_zero (map fst shares)) (map fst shares)) of
                  None \<Rightarrow> Inl (Error (str ''FieldError''))
                | Some basis \<Rightarrow>
                    Inr (hex_encode
                      (combine_bytes basis (map snd shares) (length (snd (hd shares))))))))"

subsection \<open>The stand-in cipher\<close>

text \<open>
  \<open>CryptoJS.AES\<close> is replaced by an envelope with the same interface: the ciphertext is
  printable ASCII and carries one salt byte, decrypting under the password that
  encrypted gives the text back, decrypting under another password throws the
  \<open>Malformed UTF-8 data\<close> error of \<open>crypto-js\<close>, and a string that is no ciphertext
  decrypts to the empty string. It protects nothing; it only makes the wrappers
  executable.
\<close>

definition cipher_encrypt :: "entropy \<Rightarrow> jsstring \<Rightarrow> jsstring \<Rightarrow> thrown + jsstring" where
  "cipher_encrypt r text password =
     Inr (hex_encode (r 0 # utf8_encode password) @ str ''.'' @ hex_encode (utf8_encode text))"

definition cipher_decrypt :: "jsstring \<Rightarrow> jsstring \<Rightarrow> thrown + jsstring" where
  "cipher_decrypt text password =
     (let key = takeWhile (\<lambda>c. c \<noteq> 0x2E) text; body = dropWhile (\<lambda>c. c \<noteq> 0x2E) text
      in if body = [] \<or> key = [] then Inr []
         else if drop 1 (hex_decode key) = utf8_encode password
         then Inr (utf8_decode (hex_decode (drop 1 body)))
         else Inl (Error (str ''Malformed UTF-8 data'')))"

definition reference :: "entropy library" where
  "reference = \<lparr>share = engine_share, combine = engine_combine,
     aes_encrypt = cipher_encrypt, aes_decrypt = cipher_decrypt\<rparr>"

section \<open>The specification's decoder step, and inputs for the examples\<close>

text \<open>
  Step 1 of the specification's decoder, in its own words ("strip leading zero bytes"),
  to be compared with what \<open>hexToString\<close> does: a zero byte is the two digits \<open>00\<close>.
\<close>

fun strip_zero_bytes :: "jsstring \<Rightarrow> jsstring" where
  "strip_zero_bytes (a # b # cs) =
     (if a = 0x30 \<and> b = 0x30 then strip_zero_bytes cs else a # b # cs)"
| "strip_zero_bytes cs = cs"

text \<open>
  The entropy of the examples, the private key of the repository's tests, a private
  key whose first hex digit is \<open>0\<close> with the two share tokens the reference engine makes
  of it, and a passphrase of twelve lowercase words and 32 characters.
\<close>

definition demo_rnd :: "nat \<Rightarrow> entropy" where
  "demo_rnd i k = of_nat (7 * k + 3 + i)"


definition zero_key :: jsstring where
  "zero_key = str ''06162636465666768696a6b6c6d6e6f707172737475767778797a30313233343''"

definition short_phrase :: jsstring where
  "short_phrase = str ''ab ab ab ab ab ab ab ab ab a a a''"

definition zero_key_shares :: "jsstring list" where
  "zero_key_shares =
     [str ''801021d342f66714843bad5ece79e89809a736ca5bed7c0f9d22b2419c2dbece59e'',
      str ''8020e00020406183a1cfe10321476682a2defe13e387a644620c2ecca9c9ea082e4'']"





section \<open>Facts about strings, classes and the \<open>catch\<close> clauses\<close>





lemma in_class_hex_iff: "in_class cls_hex c \<longleftrightarrow> c \<in> set (str ''0123456789abcdefABCDEF'')"
  unfolding in_class_def cls_hex_def str_def
  apply (simp add: word_le_nat_alt word_unat_eq_iff)
  apply arith
  done

lemma test_all_hex_iff:
  "test_all cls_hex s \<longleftrightarrow> s \<noteq> [] \<and> (\<forall>c \<in> set s. c \<in> set (str ''0123456789abcdefABCDEF''))"
  by (simp add: test_all_def list_all_iff in_class_hex_iff)

lemma strip_leading_zero: "strip_leading cls_zero hex = dropWhile (\<lambda>c. c = 0x30) hex"
proof -
  have "in_class cls_zero = (\<lambda>c. c = 0x30)"
    by (auto simp: in_class_def cls_zero_def fun_eq_iff)
  then show ?thesis by (simp add: strip_leading_def)
qed

lemma restore_catch_not_count_error:
  "restore_catch outcome \<noteq> Inl (Error (str ''At least 2 shares are required''))"
  by (simp add: restore_catch_def str_def split: sum.splits)







section \<open>Hex and UTF-8 round trips, marked strings, traversals\<close>

























section \<open>The reference library on the example inputs\<close>


lemma share_zero_key: "engine_share (demo_rnd (Suc 0)) zero_key 2 2 = Inr zero_key_shares"
  by code_simp

lemma combine_zero_key: "engine_combine zero_key_shares = Inr zero_key"
  by code_simp

lemma stringToHex_zero_key: "stringToHex zero_key = zero_key"
  by code_simp

lemma hexToString_zero_key: "hexToString zero_key = str ''abcdefghijklmnopqrstuvwxyz01234''"
  by code_simp

lemma decode_short_phrase:
  "hexToString (stringToHex short_phrase) =
     str ''6162206162206162206162206162206162206162206162206162206120612061''"
  by code_simp














section \<open>Split-side validation and the minimum share count\<close>



text \<open>
  Claim C7. A share list of fewer than two elements makes \<open>restoreSecret\<close> throw
  "At least 2 shares are required", whatever the library and the password are (nothing
  is decrypted or combined before); a list of two or more elements never gives this
  error.
\<close>

theorem restoreSecret_minimum_shares:
  "(length shares < 2 \<longrightarrow>
      restoreSecret L shares password = Inl (Error (str ''At least 2 shares are required'')))
   \<and> (2 \<le> length shares \<longrightarrow>
      restoreSecret L shares password \<noteq> Inl (Error (str ''At least 2 shares are required'')))"
  by (simp add: restoreSecret_def restore_catch_not_count_error)

theorem restoreSecret_minimum_shares_witness:
  "length [str ''801aa''] < 2
   \<and> restoreSecret reference [str ''801aa''] None =
       Inl (Error (str ''At least 2 shares are required''))
   \<and> 2 \<le> length zero_key_shares
   \<and> restoreSecret reference zero_key_shares None \<noteq>
       Inl (Error (str ''At least 2 shares are required''))"
  using restoreSecret_minimum_shares [of "[str ''801aa'']" reference None]
    restoreSecret_minimum_shares [of zero_key_shares reference None]
  by (simp add: zero_key_shares_def)

section \<open>The secret encoder and decoder\<close>



text \<open>
  Claim C5, at a failing input. The hex string \<open>zero_key\<close> is what combining returns for
  a private key whose first digit is \<open>0\<close>. It has no leading zero byte and exactly 64 hex
  digits, so the decoder of the claim returns it unchanged. \<open>hexToString\<close> removes its
  leading \<open>0\<close> digit, finds 63 digits, and decodes them as text.
\<close>

theorem hexToString_leading_zero_digit:
  "strip_zero_bytes zero_key = zero_key
   \<and> length (strip_zero_bytes zero_key) = 64
   \<and> test_all cls_hex (strip_zero_bytes zero_key)
   \<and> hexToString zero_key = str ''abcdefghijklmnopqrstuvwxyz01234''
   \<and> hexToString zero_key \<noteq> strip_zero_bytes zero_key"
proof -
  have "strip_zero_bytes zero_key = zero_key"
    by (simp add: zero_key_def str_def)
  moreover have "length zero_key = 64"
    by (simp add: zero_key_def str_def)
  moreover have "test_all cls_hex zero_key"
    unfolding test_all_hex_iff by (simp add: zero_key_def str_def)
  moreover have "str ''abcdefghijklmnopqrstuvwxyz01234'' \<noteq> zero_key"
    by (simp add: zero_key_def str_def)
  ultimately show ?thesis
    by (simp add: hexToString_zero_key)
qed

text \<open>
  Where the two decoders agree: when the digits left after the leading \<open>0\<close> digits are
  exactly 64 hex digits, \<open>hexToString\<close> returns them unchanged, whatever their bytes would
  decode to.
\<close>

lemma hexToString_of_64_digits:
  assumes "length (dropWhile (\<lambda>c. c = 0x30) hex) = 64"
    and "set (dropWhile (\<lambda>c. c = 0x30) hex) \<subseteq> set (str ''0123456789abcdefABCDEF'')"
  shows "hexToString hex = dropWhile (\<lambda>c. c = 0x30) hex"
proof -
  define rest where "rest = dropWhile (\<lambda>c. c = 0x30) hex"
  from assms have len: "length rest = 64"
    and digits: "set rest \<subseteq> set (str ''0123456789abcdefABCDEF'')"
    by (simp_all add: rest_def)
  from len have ne: "rest \<noteq> []"
    by auto
  with digits have "test_all cls_hex rest"
    unfolding test_all_hex_iff by auto
  with len ne show ?thesis
    by (simp add: hexToString_def strip_leading_zero Let_def rest_def [symmetric])
qed

text \<open>
  Claim C1, at a failing input. The private key \<open>zero_key\<close> has 64 hex digits, the first
  of them \<open>0\<close>. Split 2 of 2 by the reference engine and combined again, the engine
  returns the key, and \<open>restoreSecret\<close> returns the 31 characters
  \<open>abcdefghijklmnopqrstuvwxyz01234\<close> instead. The same test on the length gives the hex
  digits instead of the text for a passphrase of twelve words and 32 characters.
\<close>

theorem round_trip_leading_zero:
  "createShares reference demo_rnd zero_key 2 2 None = Inr zero_key_shares
   \<and> restoreSecret reference zero_key_shares None = Inr (str ''abcdefghijklmnopqrstuvwxyz01234'')
   \<and> str ''abcdefghijklmnopqrstuvwxyz01234'' \<noteq> zero_key
   \<and> hexToString (stringToHex short_phrase) =
       str ''6162206162206162206162206162206162206162206162206162206120612061''"
proof -
  have len: "length zero_key_shares = 2"
    by (simp add: zero_key_shares_def)
  have ne: "str ''abcdefghijklmnopqrstuvwxyz01234'' \<noteq> zero_key"
    by (simp add: zero_key_def str_def)
  have plain: "\<not> isEncrypted (str ''abcdefghijklmnopqrstuvwxyz01234'')"
    by (simp add: isEncrypted_def startsWith_def str_def)
  show ?thesis
    by (simp add: createShares_def create_try_def create_catch_def given_def reference_def
        stringToHex_zero_key share_zero_key restoreSecret_def restore_try_def restore_catch_def
        sharesToUse_def restoredSecret_def combine_zero_key hexToString_zero_key len ne plain
        decode_short_phrase)
qed

section \<open>The password layer\<close>









text \<open>
  Claim C9. When the first share does not start with \<open>encrypted:\<close> (or no password is
  given), no share is decrypted: the value of \<open>sharesToUse\<close> is the list itself, whatever
  the cipher would do and whatever the later shares look like, and \<open>restoreSecret\<close>
  combines the list as it is.
\<close>

theorem share_decryption_gate:
  "2 \<le> length shares \<Longrightarrow> \<not> (given password \<and> isEncrypted (shares ! 0)) \<Longrightarrow>
     sharesToUse (L\<lparr>aes_decrypt := d\<rparr>) shares password = Inr shares
     \<and> restoreSecret L shares password =
         restore_catch (case combine L shares of
                          Inl e \<Rightarrow> Inl e
                        | Inr restoredHexSecret \<Rightarrow> restoredSecret L restoredHexSecret password)"
  by (auto simp: sharesToUse_def restoreSecret_def restore_try_def)

theorem share_decryption_gate_witness:
  "2 \<le> length [str ''801aa'', str ''encrypted:0570.38'']
   \<and> given (Some (str ''p''))
   \<and> \<not> isEncrypted ([str ''801aa'', str ''encrypted:0570.38''] ! 0)
   \<and> isEncrypted ([str ''801aa'', str ''encrypted:0570.38''] ! 1)
   \<and> sharesToUse reference [str ''801aa'', str ''encrypted:0570.38''] (Some (str ''p'')) =
       Inr [str ''801aa'', str ''encrypted:0570.38'']"
proof -
  have first: "\<not> isEncrypted (str ''801aa'')" and second: "isEncrypted (str ''encrypted:0570.38'')"
    and pw: "given (Some (str ''p''))"
    by (simp_all add: isEncrypted_def startsWith_def given_def str_def)
  have same: "reference\<lparr>aes_decrypt := cipher_decrypt\<rparr> = reference"
    by (simp add: reference_def)
  show ?thesis
    using first second pw
      share_decryption_gate [where shares = "[str ''801aa'', str ''encrypted:0570.38'']"
        and password = "Some (str ''p'')" and L = reference and d = cipher_decrypt]
    by (simp add: same)
qed

section \<open>Determinism of restoring\<close>


end
